theory Spec2Isabelle
  imports Main
begin

section \<open>The state map of the supernode's progress manager\<close>

text \<open>
  A shallow embedding of \<^verbatim>\<open>supernode/daemon/mgr/progress/state_sync_map.go\<close>.
  The Go type \<^verbatim>\<open>stateSyncMap\<close> wraps a \<^verbatim>\<open>*sync.Map\<close>; every method either reads it
  with \<^verbatim>\<open>Load\<close> or changes it with \<^verbatim>\<open>Store\<close> or \<^verbatim>\<open>Delete\<close>. The model is sequential:
  each method takes the map and returns its result together with the map afterwards.
\<close>

subsection \<open>Values of type \<^verbatim>\<open>interface{}\<close>\<close>

text \<open>
  The map holds \<^verbatim>\<open>interface{}\<close> values. The typed getters tell four dynamic types apart,
  the pointer types \<^verbatim>\<open>*superState\<close>, \<^verbatim>\<open>*clientState\<close>, \<^verbatim>\<open>*peerState\<close> and
  \<^verbatim>\<open>*pieceState\<close>. The struct declarations are in other files of the package, so the
  pointers are type parameters here. \<open>OtherV\<close> is a value of any other dynamic type
  and \<open>NilIface\<close> is the nil interface value.
\<close>

datatype ('s, 'c, 'p, 'q, 'o) iface =
    SuperStateP 's
  | ClientStateP 'c
  | PeerStateP 'p
  | PieceStateP 'q
  | OtherV 'o
  | NilIface

datatype kind = SuperStateK | ClientStateK | PeerStateK | PieceStateK | OtherK

fun kindOf :: "('s, 'c, 'p, 'q, 'o) iface \<Rightarrow> kind" where
  "kindOf (SuperStateP _) = SuperStateK"
| "kindOf (ClientStateP _) = ClientStateK"
| "kindOf (PeerStateP _) = PeerStateK"
| "kindOf (PieceStateP _) = PieceStateK"
| "kindOf (OtherV _) = OtherK"
| "kindOf NilIface = OtherK"

subsection \<open>Errors\<close>

text \<open>
  The three sentinel errors of package \<^verbatim>\<open>errortypes\<close> that the file uses, and the
  wrappers of \<^verbatim>\<open>github.com/pkg/errors\<close>: \<^verbatim>\<open>Wrap(err, msg)\<close> and
  \<^verbatim>\<open>Wrapf(err, format, args...)\<close> annotate an error with a message and keep the
  error they wrap as the cause. The message of \<open>Wrapf\<close> is kept as its format string
  and its arguments. \<open>Cause\<close> is \<^verbatim>\<open>errors.Cause\<close>: it unwraps down to the root error,
  which is what the predicates of \<^verbatim>\<open>errortypes\<close> inspect.
\<close>

datatype 'v fmtarg = ArgS string | ArgV 'v

datatype 'v error =
    ErrEmptyValue
  | ErrDataNotFound
  | ErrConvertFailed
  | Wrap "'v error" string
  | Wrapf "'v error" string "'v fmtarg list"

fun Cause :: "'v error \<Rightarrow> 'v error" where
  "Cause (Wrap err _) = Cause err"
| "Cause (Wrapf err _ _) = Cause err"
| "Cause ErrEmptyValue = ErrEmptyValue"
| "Cause ErrDataNotFound = ErrDataNotFound"
| "Cause ErrConvertFailed = ErrConvertFailed"

text \<open>A result fails with the error kind \<open>e\<close> when it is an error whose cause is \<open>e\<close>.\<close>

definition failsWith :: "'v error + 'a \<Rightarrow> 'v error \<Rightarrow> bool" where
  "failsWith r e = (case r of Inl err \<Rightarrow> Cause err = e | Inr _ \<Rightarrow> False)"

text \<open>The same for a method that returns only an \<^verbatim>\<open>error\<close>, where \<open>None\<close> is \<^verbatim>\<open>nil\<close>.\<close>

definition errIs :: "'v error option \<Rightarrow> 'v error \<Rightarrow> bool" where
  "errIs r e = (case r of Some err \<Rightarrow> Cause err = e | None \<Rightarrow> False)"

subsection \<open>The underlying \<^verbatim>\<open>sync.Map\<close>\<close>

type_synonym ('s, 'c, 'p, 'q, 'o) syncMap = "string \<rightharpoonup> ('s, 'c, 'p, 'q, 'o) iface"

definition Store ::
  "('s, 'c, 'p, 'q, 'o) syncMap \<Rightarrow> string \<Rightarrow> ('s, 'c, 'p, 'q, 'o) iface
     \<Rightarrow> ('s, 'c, 'p, 'q, 'o) syncMap" where
  "Store m key val = m(key \<mapsto> val)"

text \<open>\<^verbatim>\<open>Load\<close> returns the value and whether the key was present (\<^verbatim>\<open>nil, false\<close> if not).\<close>

definition Load ::
  "('s, 'c, 'p, 'q, 'o) syncMap \<Rightarrow> string \<Rightarrow> ('s, 'c, 'p, 'q, 'o) iface \<times> bool" where
  "Load m key = (case m key of Some v \<Rightarrow> (v, True) | None \<Rightarrow> (NilIface, False))"

definition Delete ::
  "('s, 'c, 'p, 'q, 'o) syncMap \<Rightarrow> string \<Rightarrow> ('s, 'c, 'p, 'q, 'o) syncMap" where
  "Delete m key = m(key := None)"

subsection \<open>\<^verbatim>\<open>stateSyncMap\<close> and its methods\<close>

text \<open>
  Modelled from the spec: \<^verbatim>\<open>stringutils.IsEmptyStr\<close> is in package \<^verbatim>\<open>pkg/stringutils\<close>,
  which is not among the sources at hand. The spec says that the operations fail with
  the empty-key error "if key is empty" and that "keys are never empty strings", so
  the test is that the string is the empty string.
\<close>

definition IsEmptyStr :: "string \<Rightarrow> bool" where
  "IsEmptyStr s = (s = [])"

text \<open>The struct \<^verbatim>\<open>stateSyncMap\<close> has one embedded field, the \<^verbatim>\<open>*sync.Map\<close>.\<close>

type_synonym ('s, 'c, 'p, 'q, 'o) stateSyncMap = "('s, 'c, 'p, 'q, 'o) syncMap"

definition newStateSyncMap :: "('s, 'c, 'p, 'q, 'o) stateSyncMap" where
  "newStateSyncMap = Map.empty"

definition add ::
  "('s, 'c, 'p, 'q, 'o) stateSyncMap \<Rightarrow> string \<Rightarrow> ('s, 'c, 'p, 'q, 'o) iface
     \<Rightarrow> ('s, 'c, 'p, 'q, 'o) iface error option \<times> ('s, 'c, 'p, 'q, 'o) stateSyncMap" where
  "add mmap key val =
     (if IsEmptyStr key then (Some (Wrap ErrEmptyValue ''key''), mmap)
      else (None, Store mmap key val))"

definition get ::
  "('s, 'c, 'p, 'q, 'o) stateSyncMap \<Rightarrow> string
     \<Rightarrow> (('s, 'c, 'p, 'q, 'o) iface error + ('s, 'c, 'p, 'q, 'o) iface)
         \<times> ('s, 'c, 'p, 'q, 'o) stateSyncMap" where
  "get mmap key =
     (if IsEmptyStr key then (Inl (Wrap ErrEmptyValue ''key''), mmap)
      else (case Load mmap key of
              (v, ok) \<Rightarrow>
                if ok then (Inr v, mmap)
                else (Inl (Wrapf ErrDataNotFound ''key: %s'' [ArgS key]), mmap)))"

definition getAsSuperState ::
  "('s, 'c, 'p, 'q, 'o) stateSyncMap \<Rightarrow> string
     \<Rightarrow> (('s, 'c, 'p, 'q, 'o) iface error + 's) \<times> ('s, 'c, 'p, 'q, 'o) stateSyncMap" where
  "getAsSuperState mmap key =
     (case get mmap key of
        (Inl err, mmap') \<Rightarrow> (Inl (Wrapf err ''key: %s'' [ArgS key]), mmap')
      | (Inr v, mmap') \<Rightarrow>
          (case v of
             SuperStateP val \<Rightarrow> (Inr val, mmap')
           | _ \<Rightarrow> (Inl (Wrapf ErrConvertFailed ''key %s: %v'' [ArgS key, ArgV v]), mmap')))"

definition getAsClientState ::
  "('s, 'c, 'p, 'q, 'o) stateSyncMap \<Rightarrow> string
     \<Rightarrow> (('s, 'c, 'p, 'q, 'o) iface error + 'c) \<times> ('s, 'c, 'p, 'q, 'o) stateSyncMap" where
  "getAsClientState mmap key =
     (case get mmap key of
        (Inl err, mmap') \<Rightarrow> (Inl (Wrapf err ''key: %s'' [ArgS key]), mmap')
      | (Inr v, mmap') \<Rightarrow>
          (case v of
             ClientStateP val \<Rightarrow> (Inr val, mmap')
           | _ \<Rightarrow> (Inl (Wrapf ErrConvertFailed ''key %s: %v'' [ArgS key, ArgV v]), mmap')))"

definition getAsPeerState ::
  "('s, 'c, 'p, 'q, 'o) stateSyncMap \<Rightarrow> string
     \<Rightarrow> (('s, 'c, 'p, 'q, 'o) iface error + 'p) \<times> ('s, 'c, 'p, 'q, 'o) stateSyncMap" where
  "getAsPeerState mmap key =
     (case get mmap key of
        (Inl err, mmap') \<Rightarrow> (Inl (Wrapf err ''key: %s'' [ArgS key]), mmap')
      | (Inr v, mmap') \<Rightarrow>
          (case v of
             PeerStateP val \<Rightarrow> (Inr val, mmap')
           | _ \<Rightarrow> (Inl (Wrapf ErrConvertFailed ''key %s: %v'' [ArgS key, ArgV v]), mmap')))"

definition getAsPieceState ::
  "('s, 'c, 'p, 'q, 'o) stateSyncMap \<Rightarrow> string
     \<Rightarrow> (('s, 'c, 'p, 'q, 'o) iface error + 'q) \<times> ('s, 'c, 'p, 'q, 'o) stateSyncMap" where
  "getAsPieceState mmap key =
     (case get mmap key of
        (Inl err, mmap') \<Rightarrow> (Inl (Wrapf err ''key: %s'' [ArgS key]), mmap')
      | (Inr v, mmap') \<Rightarrow>
          (case v of
             PieceStateP val \<Rightarrow> (Inr val, mmap')
           | _ \<Rightarrow> (Inl (Wrapf ErrConvertFailed ''key %s: %v'' [ArgS key, ArgV v]), mmap')))"

definition remove ::
  "('s, 'c, 'p, 'q, 'o) stateSyncMap \<Rightarrow> string
     \<Rightarrow> ('s, 'c, 'p, 'q, 'o) iface error option \<times> ('s, 'c, 'p, 'q, 'o) stateSyncMap" where
  "remove mmap key =
     (if IsEmptyStr key then (Some (Wrap ErrEmptyValue ''key''), mmap)
      else (case Load mmap key of
              (_, ok) \<Rightarrow>
                if \<not> ok then (Some (Wrapf ErrDataNotFound ''key: %s'' [ArgS key]), mmap)
                else (None, Delete mmap key)))"

subsection \<open>Sequences of calls\<close>

text \<open>
  A call of one of the methods, and the map after a list of calls made one after the
  other. Only the map is kept: the results of the calls are dropped.
\<close>

datatype ('s, 'c, 'p, 'q, 'o) call =
    Add string "('s, 'c, 'p, 'q, 'o) iface"
  | Get string
  | GetAsSuperState string
  | GetAsClientState string
  | GetAsPeerState string
  | GetAsPieceState string
  | Remove string

fun exec ::
  "('s, 'c, 'p, 'q, 'o) call \<Rightarrow> ('s, 'c, 'p, 'q, 'o) stateSyncMap
     \<Rightarrow> ('s, 'c, 'p, 'q, 'o) stateSyncMap" where
  "exec (Add key val) mmap = snd (add mmap key val)"
| "exec (Get key) mmap = snd (get mmap key)"
| "exec (GetAsSuperState key) mmap = snd (getAsSuperState mmap key)"
| "exec (GetAsClientState key) mmap = snd (getAsClientState mmap key)"
| "exec (GetAsPeerState key) mmap = snd (getAsPeerState mmap key)"
| "exec (GetAsPieceState key) mmap = snd (getAsPieceState mmap key)"
| "exec (Remove key) mmap = snd (remove mmap key)"

fun run ::
  "('s, 'c, 'p, 'q, 'o) call list \<Rightarrow> ('s, 'c, 'p, 'q, 'o) stateSyncMap
     \<Rightarrow> ('s, 'c, 'p, 'q, 'o) stateSyncMap" where
  "run [] mmap = mmap"
| "run (c # cs) mmap = run cs (exec c mmap)"

text \<open>Whether a call is an \<open>add\<close> under the given key.\<close>

fun addsKey :: "string \<Rightarrow> ('s, 'c, 'p, 'q, 'o) call \<Rightarrow> bool" where
  "addsKey k (Add key _) = (key = k)"
| "addsKey k _ = False"

fun noAdd :: "string \<Rightarrow> ('s, 'c, 'p, 'q, 'o) call list \<Rightarrow> bool" where
  "noAdd k [] = True"
| "noAdd k (c # cs) = (\<not> addsKey k c \<and> noAdd k cs)"

text \<open>Whether a call is a \<open>remove\<close> of the given key.\<close>

fun removesKey :: "string \<Rightarrow> ('s, 'c, 'p, 'q, 'o) call \<Rightarrow> bool" where
  "removesKey k (Remove key) = (key = k)"
| "removesKey k _ = False"

fun noRemove :: "string \<Rightarrow> ('s, 'c, 'p, 'q, 'o) call list \<Rightarrow> bool" where
  "noRemove k [] = True"
| "noRemove k (c # cs) = (\<not> removesKey k c \<and> noRemove k cs)"

section \<open>Basic facts about the methods\<close>

lemma get_result:
  "fst (get mmap key) =
     (if key = [] then Inl (Wrap ErrEmptyValue ''key'')
      else (case mmap key of
              None \<Rightarrow> Inl (Wrapf ErrDataNotFound ''key: %s'' [ArgS key])
            | Some v \<Rightarrow> Inr v))"
  by (simp add: get_def IsEmptyStr_def Load_def split: option.split)

lemma get_map: "snd (get mmap key) = mmap"
  by (simp add: get_def Load_def split: option.split)

lemma add_result: "fst (add mmap key val) = (if key = [] then Some (Wrap ErrEmptyValue ''key'') else None)"
  by (simp add: add_def IsEmptyStr_def)

lemma add_map: "snd (add mmap key val) = (if key = [] then mmap else mmap(key \<mapsto> val))"
  by (simp add: add_def IsEmptyStr_def Store_def)

lemma remove_result:
  "fst (remove mmap key) =
     (if key = [] then Some (Wrap ErrEmptyValue ''key'')
      else (case mmap key of
              None \<Rightarrow> Some (Wrapf ErrDataNotFound ''key: %s'' [ArgS key])
            | Some v \<Rightarrow> None))"
  by (simp add: remove_def IsEmptyStr_def Load_def split: option.split)

lemma remove_map:
  "snd (remove mmap key) = (if key = [] then mmap else mmap(key := None))"
proof (cases "mmap key")
  case None
  then have "mmap(key := None) = mmap" by (simp add: fun_upd_idem)
  with None show ?thesis
    by (simp add: remove_def IsEmptyStr_def Load_def Delete_def)
next
  case (Some v)
  then show ?thesis
    by (simp add: remove_def IsEmptyStr_def Load_def Delete_def)
qed

lemma getAsSuperState_result:
  "fst (getAsSuperState mmap key) =
     (case fst (get mmap key) of
        Inl err \<Rightarrow> Inl (Wrapf err ''key: %s'' [ArgS key])
      | Inr v \<Rightarrow>
          (case v of
             SuperStateP val \<Rightarrow> Inr val
           | _ \<Rightarrow> Inl (Wrapf ErrConvertFailed ''key %s: %v'' [ArgS key, ArgV v])))"
  by (cases "get mmap key") (simp add: getAsSuperState_def split: sum.split iface.split)

lemma getAsClientState_result:
  "fst (getAsClientState mmap key) =
     (case fst (get mmap key) of
        Inl err \<Rightarrow> Inl (Wrapf err ''key: %s'' [ArgS key])
      | Inr v \<Rightarrow>
          (case v of
             ClientStateP val \<Rightarrow> Inr val
           | _ \<Rightarrow> Inl (Wrapf ErrConvertFailed ''key %s: %v'' [ArgS key, ArgV v])))"
  by (cases "get mmap key") (simp add: getAsClientState_def split: sum.split iface.split)

lemma getAsPeerState_result:
  "fst (getAsPeerState mmap key) =
     (case fst (get mmap key) of
        Inl err \<Rightarrow> Inl (Wrapf err ''key: %s'' [ArgS key])
      | Inr v \<Rightarrow>
          (case v of
             PeerStateP val \<Rightarrow> Inr val
           | _ \<Rightarrow> Inl (Wrapf ErrConvertFailed ''key %s: %v'' [ArgS key, ArgV v])))"
  by (cases "get mmap key") (simp add: getAsPeerState_def split: sum.split iface.split)

lemma getAsPieceState_result:
  "fst (getAsPieceState mmap key) =
     (case fst (get mmap key) of
        Inl err \<Rightarrow> Inl (Wrapf err ''key: %s'' [ArgS key])
      | Inr v \<Rightarrow>
          (case v of
             PieceStateP val \<Rightarrow> Inr val
           | _ \<Rightarrow> Inl (Wrapf ErrConvertFailed ''key %s: %v'' [ArgS key, ArgV v])))"
  by (cases "get mmap key") (simp add: getAsPieceState_def split: sum.split iface.split)

lemma getAsSuperState_map: "snd (getAsSuperState mmap key) = snd (get mmap key)"
  by (cases "get mmap key") (simp add: getAsSuperState_def split: sum.split iface.split)

lemma getAsClientState_map: "snd (getAsClientState mmap key) = snd (get mmap key)"
  by (cases "get mmap key") (simp add: getAsClientState_def split: sum.split iface.split)

lemma getAsPeerState_map: "snd (getAsPeerState mmap key) = snd (get mmap key)"
  by (cases "get mmap key") (simp add: getAsPeerState_def split: sum.split iface.split)

lemma getAsPieceState_map: "snd (getAsPieceState mmap key) = snd (get mmap key)"
  by (cases "get mmap key") (simp add: getAsPieceState_def split: sum.split iface.split)

subsection \<open>Which error a call fails with\<close>

lemma failsWith_get:
  "failsWith (fst (get mmap key)) e \<longleftrightarrow>
     (key = [] \<and> e = ErrEmptyValue) \<or> (key \<noteq> [] \<and> mmap key = None \<and> e = ErrDataNotFound)"
  by (auto simp: failsWith_def get_result split: option.split)

lemma errIs_remove:
  "errIs (fst (remove mmap key)) e \<longleftrightarrow>
     (key = [] \<and> e = ErrEmptyValue) \<or> (key \<noteq> [] \<and> mmap key = None \<and> e = ErrDataNotFound)"
  by (auto simp: errIs_def remove_result split: option.split)

lemma errIs_add:
  "errIs (fst (add mmap key val)) e \<longleftrightarrow> key = [] \<and> e = ErrEmptyValue"
  by (auto simp: errIs_def add_result)

lemma failsWith_getAsSuperState:
  "failsWith (fst (getAsSuperState mmap key)) e \<longleftrightarrow>
     (key = [] \<and> e = ErrEmptyValue)
     \<or> (key \<noteq> [] \<and> mmap key = None \<and> e = ErrDataNotFound)
     \<or> (key \<noteq> [] \<and> (\<exists>v. mmap key = Some v \<and> kindOf v \<noteq> SuperStateK) \<and> e = ErrConvertFailed)"
  by (auto simp: failsWith_def getAsSuperState_result get_result split: option.split iface.split)

lemma failsWith_getAsClientState:
  "failsWith (fst (getAsClientState mmap key)) e \<longleftrightarrow>
     (key = [] \<and> e = ErrEmptyValue)
     \<or> (key \<noteq> [] \<and> mmap key = None \<and> e = ErrDataNotFound)
     \<or> (key \<noteq> [] \<and> (\<exists>v. mmap key = Some v \<and> kindOf v \<noteq> ClientStateK) \<and> e = ErrConvertFailed)"
  by (auto simp: failsWith_def getAsClientState_result get_result split: option.split iface.split)

lemma failsWith_getAsPeerState:
  "failsWith (fst (getAsPeerState mmap key)) e \<longleftrightarrow>
     (key = [] \<and> e = ErrEmptyValue)
     \<or> (key \<noteq> [] \<and> mmap key = None \<and> e = ErrDataNotFound)
     \<or> (key \<noteq> [] \<and> (\<exists>v. mmap key = Some v \<and> kindOf v \<noteq> PeerStateK) \<and> e = ErrConvertFailed)"
  by (auto simp: failsWith_def getAsPeerState_result get_result split: option.split iface.split)

lemma failsWith_getAsPieceState:
  "failsWith (fst (getAsPieceState mmap key)) e \<longleftrightarrow>
     (key = [] \<and> e = ErrEmptyValue)
     \<or> (key \<noteq> [] \<and> mmap key = None \<and> e = ErrDataNotFound)
     \<or> (key \<noteq> [] \<and> (\<exists>v. mmap key = Some v \<and> kindOf v \<noteq> PieceStateK) \<and> e = ErrConvertFailed)"
  by (auto simp: failsWith_def getAsPieceState_result get_result split: option.split iface.split)

subsection \<open>The map after a sequence of calls\<close>

lemma exec_map:
  "exec c mmap =
     (case c of
        Add key val \<Rightarrow> if key = [] then mmap else mmap(key \<mapsto> val)
      | Remove key \<Rightarrow> if key = [] then mmap else mmap(key := None)
      | _ \<Rightarrow> mmap)"
  by (cases c)
    (simp_all add: add_map remove_map get_map getAsSuperState_map getAsClientState_map
      getAsPeerState_map getAsPieceState_map)

lemma exec_absent: "mmap k = None \<Longrightarrow> \<not> addsKey k c \<Longrightarrow> exec c mmap k = None"
  by (cases c) (simp_all add: exec_map)

lemma run_absent: "mmap k = None \<Longrightarrow> noAdd k cs \<Longrightarrow> run cs mmap k = None"
proof (induction cs arbitrary: mmap)
  case Nil
  then show ?case by simp
next
  case (Cons c cs)
  from Cons.prems have "exec c mmap k = None" by (simp add: exec_absent)
  moreover from Cons.prems have "noAdd k cs" by simp
  ultimately show ?case using Cons.IH by simp
qed

lemma exec_kept:
  "mmap k = Some v \<Longrightarrow> \<not> addsKey k c \<Longrightarrow> \<not> removesKey k c \<Longrightarrow> exec c mmap k = Some v"
  by (cases c) (simp_all add: exec_map)

lemma run_kept:
  "mmap k = Some v \<Longrightarrow> noAdd k cs \<Longrightarrow> noRemove k cs \<Longrightarrow> run cs mmap k = Some v"
proof (induction cs arbitrary: mmap)
  case Nil
  then show ?case by simp
next
  case (Cons c cs)
  from Cons.prems have "exec c mmap k = Some v" by (simp add: exec_kept)
  moreover from Cons.prems have "noAdd k cs" "noRemove k cs" by simp_all
  ultimately show ?case using Cons.IH by simp
qed

section \<open>The claims of the specification\<close>

text \<open>
  Claim C1. A typed lookup fails as \<open>get\<close> does on an empty key (cause
  \<open>ErrEmptyValue\<close>) and on an absent key (cause \<open>ErrDataNotFound\<close>), and it fails
  with cause \<open>ErrConvertFailed\<close> exactly when the key is not empty and present and holds
  a value of another kind than the one asked for. In particular \<open>getAsPeerState\<close> on a
  non-empty key that holds a \<open>*pieceState\<close> fails with \<open>ErrConvertFailed\<close>; a failing
  result carries no value.
\<close>

theorem typed_lookup_failures:
  "(key \<noteq> [] \<and> mmap key = Some (PieceStateP q)
      \<longrightarrow> failsWith (fst (getAsPeerState mmap key)) ErrConvertFailed)
   \<and> (key = [] \<longrightarrow>
        failsWith (fst (get mmap key)) ErrEmptyValue
        \<and> failsWith (fst (getAsSuperState mmap key)) ErrEmptyValue
        \<and> failsWith (fst (getAsClientState mmap key)) ErrEmptyValue
        \<and> failsWith (fst (getAsPeerState mmap key)) ErrEmptyValue
        \<and> failsWith (fst (getAsPieceState mmap key)) ErrEmptyValue)
   \<and> (key \<noteq> [] \<and> mmap key = None \<longrightarrow>
        failsWith (fst (get mmap key)) ErrDataNotFound
        \<and> failsWith (fst (getAsSuperState mmap key)) ErrDataNotFound
        \<and> failsWith (fst (getAsClientState mmap key)) ErrDataNotFound
        \<and> failsWith (fst (getAsPeerState mmap key)) ErrDataNotFound
        \<and> failsWith (fst (getAsPieceState mmap key)) ErrDataNotFound)
   \<and> (failsWith (fst (getAsSuperState mmap key)) ErrConvertFailed
        \<longleftrightarrow> key \<noteq> [] \<and> (\<exists>v. mmap key = Some v \<and> kindOf v \<noteq> SuperStateK))
   \<and> (failsWith (fst (getAsClientState mmap key)) ErrConvertFailed
        \<longleftrightarrow> key \<noteq> [] \<and> (\<exists>v. mmap key = Some v \<and> kindOf v \<noteq> ClientStateK))
   \<and> (failsWith (fst (getAsPeerState mmap key)) ErrConvertFailed
        \<longleftrightarrow> key \<noteq> [] \<and> (\<exists>v. mmap key = Some v \<and> kindOf v \<noteq> PeerStateK))
   \<and> (failsWith (fst (getAsPieceState mmap key)) ErrConvertFailed
        \<longleftrightarrow> key \<noteq> [] \<and> (\<exists>v. mmap key = Some v \<and> kindOf v \<noteq> PieceStateK))"
  by (simp add: failsWith_get failsWith_getAsSuperState failsWith_getAsClientState
      failsWith_getAsPeerState failsWith_getAsPieceState)

theorem typed_lookup_failures_witness:
  "(''a'' \<noteq> [] \<and> [''a'' \<mapsto> PieceStateP (4::nat)] ''a'' = Some (PieceStateP 4)
     \<and> failsWith (fst (getAsPeerState ([''a'' \<mapsto> PieceStateP 4] :: (nat, nat, nat, nat, nat) stateSyncMap) ''a''))
          ErrConvertFailed)
   \<and> failsWith (fst (getAsPieceState ([''a'' \<mapsto> PieceStateP 4] :: (nat, nat, nat, nat, nat) stateSyncMap) []))
        ErrEmptyValue
   \<and> (''b'' \<noteq> [] \<and> ([''a'' \<mapsto> PieceStateP 4] :: (nat, nat, nat, nat, nat) stateSyncMap) ''b'' = None
     \<and> failsWith (fst (getAsSuperState ([''a'' \<mapsto> PieceStateP 4] :: (nat, nat, nat, nat, nat) stateSyncMap) ''b''))
          ErrDataNotFound)
   \<and> \<not> failsWith (fst (getAsPieceState ([''a'' \<mapsto> PieceStateP 4] :: (nat, nat, nat, nat, nat) stateSyncMap) ''a''))
        ErrConvertFailed"
  using typed_lookup_failures [of "''a''" "[''a'' \<mapsto> PieceStateP 4] :: (nat, nat, nat, nat, nat) stateSyncMap" 4]
    typed_lookup_failures [of "[]" "[''a'' \<mapsto> PieceStateP 4] :: (nat, nat, nat, nat, nat) stateSyncMap" 4]
    typed_lookup_failures [of "''b''" "[''a'' \<mapsto> PieceStateP 4] :: (nat, nat, nat, nat, nat) stateSyncMap" 4]
  by simp

text \<open>
  Claim C2. For a non-empty key, \<open>add\<close> returns no error, \<open>get\<close> on the same key
  then returns the value that was added, and for a value of one of the four state kinds
  the typed getter of that kind returns it.
\<close>

theorem add_then_get:
  assumes "key \<noteq> []"
  shows "fst (add mmap key val) = None
    \<and> fst (get (snd (add mmap key val)) key) = Inr val
    \<and> fst (getAsSuperState (snd (add mmap key (SuperStateP s))) key) = Inr s
    \<and> fst (getAsClientState (snd (add mmap key (ClientStateP c))) key) = Inr c
    \<and> fst (getAsPeerState (snd (add mmap key (PeerStateP p))) key) = Inr p
    \<and> fst (getAsPieceState (snd (add mmap key (PieceStateP q))) key) = Inr q"
  using assms
  by (simp add: add_result add_map get_result getAsSuperState_result
      getAsClientState_result getAsPeerState_result getAsPieceState_result)

theorem add_then_get_witness:
  "''task1'' \<noteq> []
    \<and> fst (add (newStateSyncMap :: (nat, nat, nat, nat, nat) stateSyncMap) ''task1'' (OtherV 5)) = None
    \<and> fst (get (snd (add (newStateSyncMap :: (nat, nat, nat, nat, nat) stateSyncMap) ''task1'' (OtherV 5))) ''task1'') = Inr (OtherV 5)
    \<and> fst (getAsPeerState (snd (add (newStateSyncMap :: (nat, nat, nat, nat, nat) stateSyncMap) ''task1'' (PeerStateP 3))) ''task1'') = Inr 3"
  using add_then_get [of "''task1''" "newStateSyncMap :: (nat, nat, nat, nat, nat) stateSyncMap" "OtherV 5" 1 2 3 4]
  by simp

text \<open>
  Claim C3 says that a key keeps the kind it was first written with until it is removed,
  and that an \<open>add\<close> of a value of another kind under the same key is signalled. The
  method does not look at what the key holds: on a map where \<open>t1\<close> holds a
  \<open>*peerState\<close>, adding a \<open>*pieceState\<close> under \<open>t1\<close> returns no error and \<open>t1\<close> then
  holds the \<open>*pieceState\<close>.
\<close>

theorem mixed_kind_overwrite_counterexample:
  "fst (add (snd (add (newStateSyncMap :: (nat, nat, nat, nat, nat) stateSyncMap) ''t1'' (PeerStateP 1)))
          ''t1'' (PieceStateP 2)) = None
   \<and> fst (get (snd (add (newStateSyncMap :: (nat, nat, nat, nat, nat) stateSyncMap) ''t1'' (PeerStateP 1))) ''t1'')
       = Inr (PeerStateP 1)
   \<and> fst (get (snd (add (snd (add (newStateSyncMap :: (nat, nat, nat, nat, nat) stateSyncMap) ''t1'' (PeerStateP 1)))
          ''t1'' (PieceStateP 2))) ''t1'') = Inr (PieceStateP 2)
   \<and> kindOf (PieceStateP 2 :: (nat, nat, nat, nat, nat) iface) \<noteq> kindOf (PeerStateP 1 :: (nat, nat, nat, nat, nat) iface)"
  by (simp add: add_def get_def IsEmptyStr_def Store_def Load_def newStateSyncMap_def)

text \<open>
  Claim C3, as the method behaves. \<open>add\<close> on a non-empty key returns no error
  whatever the key held and the key then holds the added value, hence its kind; a key
  that is present keeps its value and kind through any calls that are neither an \<open>add\<close>
  under the key nor a \<open>remove\<close> of it.
\<close>

theorem kind_follows_last_add:
  "(key \<noteq> [] \<longrightarrow>
      fst (add mmap key val) = None
      \<and> snd (add mmap key val) key = Some val
      \<and> map_option kindOf (snd (add mmap key val) key) = Some (kindOf val))
   \<and> (key \<noteq> [] \<and> mmap key = Some v \<and> noAdd key cs \<and> noRemove key cs \<longrightarrow>
        run cs mmap key = Some v
        \<and> map_option kindOf (run cs mmap key) = Some (kindOf v))"
  by (simp add: add_result add_map run_kept)

theorem kind_follows_last_add_witness:
  "''t1'' \<noteq> []
   \<and> fst (add ([''t1'' \<mapsto> PeerStateP 1] :: (nat, nat, nat, nat, nat) stateSyncMap) ''t1'' (PieceStateP 2)) = None
   \<and> map_option kindOf (snd (add ([''t1'' \<mapsto> PeerStateP 1] :: (nat, nat, nat, nat, nat) stateSyncMap) ''t1'' (PieceStateP 2)) ''t1'')
        = Some PieceStateK
   \<and> ([''t1'' \<mapsto> PeerStateP 1] :: (nat, nat, nat, nat, nat) stateSyncMap) ''t1'' = Some (PeerStateP 1)
   \<and> noAdd ''t1'' [Add ''t2'' (SuperStateP 0), Get ''t1'', Remove ''t2'', Remove ''t3'' :: (nat, nat, nat, nat, nat) call]
   \<and> noRemove ''t1'' [Add ''t2'' (SuperStateP 0), Get ''t1'', Remove ''t2'', Remove ''t3'' :: (nat, nat, nat, nat, nat) call]
   \<and> map_option kindOf (run [Add ''t2'' (SuperStateP 0), Get ''t1'', Remove ''t2'', Remove ''t3'']
        ([''t1'' \<mapsto> PeerStateP 1] :: (nat, nat, nat, nat, nat) stateSyncMap) ''t1'') = Some PeerStateK"
  using kind_follows_last_add [of "''t1''" "[''t1'' \<mapsto> PeerStateP 1] :: (nat, nat, nat, nat, nat) stateSyncMap"
      "PieceStateP 2" "PeerStateP 1" "[Add ''t2'' (SuperStateP 0), Get ''t1'', Remove ''t2'', Remove ''t3'']"]
  by simp

text \<open>
  Claim C4. \<open>add\<close> on a non-empty key inserts or overwrites without looking at what
  the key holds: two \<open>add\<close>s under the same key both return no error, and \<open>get\<close> then
  returns the value of the second.
\<close>

theorem add_overwrites:
  assumes "key \<noteq> []"
  shows "fst (add mmap key v1) = None
    \<and> fst (add (snd (add mmap key v1)) key v2) = None
    \<and> fst (get (snd (add (snd (add mmap key v1)) key v2)) key) = Inr v2"
  using assms by (simp add: add_result add_map get_result)

theorem add_overwrites_witness:
  "''p'' \<noteq> []
    \<and> fst (add (newStateSyncMap :: (nat, nat, nat, nat, nat) stateSyncMap) ''p'' (PeerStateP 1)) = None
    \<and> fst (add (snd (add (newStateSyncMap :: (nat, nat, nat, nat, nat) stateSyncMap) ''p'' (PeerStateP 1))) ''p'' (PeerStateP 2)) = None
    \<and> fst (get (snd (add (snd (add (newStateSyncMap :: (nat, nat, nat, nat, nat) stateSyncMap) ''p'' (PeerStateP 1))) ''p'' (PeerStateP 2))) ''p'') = Inr (PeerStateP 2)"
  using add_overwrites [of "''p''" "newStateSyncMap :: (nat, nat, nat, nat, nat) stateSyncMap" "PeerStateP 1" "PeerStateP 2"]
  by simp

text \<open>
  Claim C5. With the empty string as key, \<open>get\<close> and \<open>remove\<close> fail with cause
  \<open>ErrEmptyValue\<close> and not with cause \<open>ErrDataNotFound\<close>, whatever the map holds, and
  \<open>add\<close> fails with cause \<open>ErrEmptyValue\<close> too.
\<close>

theorem empty_key_rejected:
  "failsWith (fst (get mmap [])) ErrEmptyValue
   \<and> \<not> failsWith (fst (get mmap [])) ErrDataNotFound
   \<and> errIs (fst (remove mmap [])) ErrEmptyValue
   \<and> \<not> errIs (fst (remove mmap [])) ErrDataNotFound
   \<and> errIs (fst (add mmap [] val)) ErrEmptyValue"
  by (simp add: failsWith_get errIs_remove errIs_add)

text \<open>
  Claim C6. For a non-empty key that was never added (a new map followed by any calls
  none of which is an \<open>add\<close> under the key), and for one that was removed with success
  and not added since, \<open>get\<close> and \<open>remove\<close> both fail with cause \<open>ErrDataNotFound\<close>.
\<close>

theorem absent_key_not_found:
  "(key \<noteq> [] \<and> noAdd key cs \<longrightarrow>
      failsWith (fst (get (run cs newStateSyncMap) key)) ErrDataNotFound
      \<and> errIs (fst (remove (run cs newStateSyncMap) key)) ErrDataNotFound)
   \<and> (key \<noteq> [] \<and> fst (remove mmap key) = None \<and> noAdd key cs \<longrightarrow>
        failsWith (fst (get (run cs (snd (remove mmap key))) key)) ErrDataNotFound
        \<and> errIs (fst (remove (run cs (snd (remove mmap key))) key)) ErrDataNotFound)"
proof -
  have fresh: "run cs newStateSyncMap key = None" if "noAdd key cs"
    using that by (simp add: run_absent newStateSyncMap_def)
  have removed: "run cs (snd (remove mmap key)) key = None" if "key \<noteq> []" "noAdd key cs"
    using that by (simp add: run_absent remove_map)
  show ?thesis
    by (simp add: failsWith_get errIs_remove fresh removed)
qed

theorem absent_key_not_found_witness:
  "''p1'' \<noteq> []
   \<and> noAdd ''p1'' [Add ''p2'' (PeerStateP 7), Get ''p1'', Remove ''p1'', Remove ''p2'' :: (nat, nat, nat, nat, nat) call]
   \<and> failsWith (fst (get (run [Add ''p2'' (PeerStateP 7), Get ''p1'', Remove ''p1'', Remove ''p2'']
        (newStateSyncMap :: (nat, nat, nat, nat, nat) stateSyncMap)) ''p1'')) ErrDataNotFound
   \<and> errIs (fst (remove (run [Add ''p2'' (PeerStateP 7), Get ''p1'', Remove ''p1'', Remove ''p2'']
        (newStateSyncMap :: (nat, nat, nat, nat, nat) stateSyncMap)) ''p1'')) ErrDataNotFound
   \<and> fst (remove ([''p1'' \<mapsto> PieceStateP 3] :: (nat, nat, nat, nat, nat) stateSyncMap) ''p1'') = None
   \<and> failsWith (fst (get (run [Add ''p2'' (PeerStateP 7), Get ''p1'', Remove ''p1'', Remove ''p2'']
        (snd (remove ([''p1'' \<mapsto> PieceStateP 3] :: (nat, nat, nat, nat, nat) stateSyncMap) ''p1''))) ''p1''))
        ErrDataNotFound
   \<and> errIs (fst (remove (run [Add ''p2'' (PeerStateP 7), Get ''p1'', Remove ''p1'', Remove ''p2'']
        (snd (remove ([''p1'' \<mapsto> PieceStateP 3] :: (nat, nat, nat, nat, nat) stateSyncMap) ''p1''))) ''p1''))
        ErrDataNotFound"
  using absent_key_not_found [of "''p1''"
      "[Add ''p2'' (PeerStateP 7), Get ''p1'', Remove ''p1'', Remove ''p2'']"
      "[''p1'' \<mapsto> PieceStateP 3] :: (nat, nat, nat, nat, nat) stateSyncMap"]
  by (simp add: remove_result)

text \<open>
  Claim C7. \<open>remove\<close> on a non-empty key that is present returns no error and deletes
  the key: after it, and after any further calls none of which is an \<open>add\<close> under the
  key, \<open>get\<close> and the four typed getters fail on the key with cause
  \<open>ErrDataNotFound\<close>.
\<close>

theorem remove_deletes_key:
  assumes "key \<noteq> []" and "mmap key = Some v"
  shows "fst (remove mmap key) = None
    \<and> snd (remove mmap key) key = None
    \<and> (noAdd key cs \<longrightarrow>
          failsWith (fst (get (run cs (snd (remove mmap key))) key)) ErrDataNotFound
          \<and> failsWith (fst (getAsSuperState (run cs (snd (remove mmap key))) key)) ErrDataNotFound
          \<and> failsWith (fst (getAsClientState (run cs (snd (remove mmap key))) key)) ErrDataNotFound
          \<and> failsWith (fst (getAsPeerState (run cs (snd (remove mmap key))) key)) ErrDataNotFound
          \<and> failsWith (fst (getAsPieceState (run cs (snd (remove mmap key))) key)) ErrDataNotFound)"
proof -
  have gone: "snd (remove mmap key) key = None"
    using assms(1) by (simp add: remove_map)
  have removed: "run cs (snd (remove mmap key)) key = None" if "noAdd key cs"
    using gone that by (rule run_absent [of "snd (remove mmap key)" key cs])
  show ?thesis
    using assms
    by (simp add: remove_result gone removed failsWith_get failsWith_getAsSuperState
        failsWith_getAsClientState failsWith_getAsPeerState failsWith_getAsPieceState)
qed

theorem remove_deletes_key_witness:
  "''peer9'' \<noteq> []
   \<and> ([''peer9'' \<mapsto> PeerStateP 1] :: (nat, nat, nat, nat, nat) stateSyncMap) ''peer9'' = Some (PeerStateP 1)
   \<and> noAdd ''peer9'' [Get ''peer9'', Add ''peer8'' (PeerStateP 2), GetAsPeerState ''peer9'' :: (nat, nat, nat, nat, nat) call]
   \<and> fst (remove ([''peer9'' \<mapsto> PeerStateP 1] :: (nat, nat, nat, nat, nat) stateSyncMap) ''peer9'') = None
   \<and> failsWith (fst (getAsPeerState (run [Get ''peer9'', Add ''peer8'' (PeerStateP 2), GetAsPeerState ''peer9'']
        (snd (remove ([''peer9'' \<mapsto> PeerStateP 1] :: (nat, nat, nat, nat, nat) stateSyncMap) ''peer9''))) ''peer9''))
        ErrDataNotFound"
  using remove_deletes_key [of "''peer9''" "[''peer9'' \<mapsto> PeerStateP 1] :: (nat, nat, nat, nat, nat) stateSyncMap"
      "PeerStateP 1" "[Get ''peer9'', Add ''peer8'' (PeerStateP 2), GetAsPeerState ''peer9'']"]
  by simp

text \<open>
  Claim C8. A call of \<open>add\<close>, \<open>get\<close> or \<open>remove\<close> that returns an error leaves the
  map as it was.
\<close>

theorem failure_leaves_map_unchanged:
  "(fst (add mmap key val) \<noteq> None \<longrightarrow> snd (add mmap key val) = mmap)
   \<and> (isl (fst (get mmap key)) \<longrightarrow> snd (get mmap key) = mmap)
   \<and> (fst (remove mmap key) \<noteq> None \<longrightarrow> snd (remove mmap key) = mmap)"
  by (simp add: add_result add_map get_map remove_result remove_map fun_upd_idem
      split: option.split)

theorem failure_leaves_map_unchanged_witness:
  "(errIs (fst (add ([''c'' \<mapsto> ClientStateP 1] :: (nat, nat, nat, nat, nat) stateSyncMap) [] (ClientStateP 2))) ErrEmptyValue
     \<and> snd (add ([''c'' \<mapsto> ClientStateP 1] :: (nat, nat, nat, nat, nat) stateSyncMap) [] (ClientStateP 2))
         = [''c'' \<mapsto> ClientStateP 1])
   \<and> (failsWith (fst (get ([''c'' \<mapsto> ClientStateP 1] :: (nat, nat, nat, nat, nat) stateSyncMap) [])) ErrEmptyValue
     \<and> snd (get ([''c'' \<mapsto> ClientStateP 1] :: (nat, nat, nat, nat, nat) stateSyncMap) []) = [''c'' \<mapsto> ClientStateP 1])
   \<and> (errIs (fst (remove ([''c'' \<mapsto> ClientStateP 1] :: (nat, nat, nat, nat, nat) stateSyncMap) [])) ErrEmptyValue
     \<and> snd (remove ([''c'' \<mapsto> ClientStateP 1] :: (nat, nat, nat, nat, nat) stateSyncMap) []) = [''c'' \<mapsto> ClientStateP 1])
   \<and> (failsWith (fst (get ([''c'' \<mapsto> ClientStateP 1] :: (nat, nat, nat, nat, nat) stateSyncMap) ''d'')) ErrDataNotFound
     \<and> snd (get ([''c'' \<mapsto> ClientStateP 1] :: (nat, nat, nat, nat, nat) stateSyncMap) ''d'') = [''c'' \<mapsto> ClientStateP 1])
   \<and> (errIs (fst (remove ([''c'' \<mapsto> ClientStateP 1] :: (nat, nat, nat, nat, nat) stateSyncMap) ''d'')) ErrDataNotFound
     \<and> snd (remove ([''c'' \<mapsto> ClientStateP 1] :: (nat, nat, nat, nat, nat) stateSyncMap) ''d'') = [''c'' \<mapsto> ClientStateP 1])"
  using failure_leaves_map_unchanged [of "[''c'' \<mapsto> ClientStateP 1] :: (nat, nat, nat, nat, nat) stateSyncMap"
      "[]" "ClientStateP 2"]
    failure_leaves_map_unchanged [of "[''c'' \<mapsto> ClientStateP 1] :: (nat, nat, nat, nat, nat) stateSyncMap"
      "''d''" "ClientStateP 2"]
  by (simp add: add_result get_result remove_result errIs_def failsWith_def)

text \<open>
  Claim C9. The map takes any value: for a non-empty key \<open>add\<close> returns no error and
  \<open>get\<close> returns the value with no check of its kind, also when the value is of none of
  the four state kinds; only the typed getters check the kind, and each of them then
  fails with cause \<open>ErrConvertFailed\<close>.
\<close>

theorem any_value_accepted:
  assumes "key \<noteq> []"
  shows "fst (add mmap key val) = None
    \<and> fst (get (snd (add mmap key val)) key) = Inr val
    \<and> (kindOf val = OtherK \<longrightarrow>
          failsWith (fst (getAsSuperState (snd (add mmap key val)) key)) ErrConvertFailed
          \<and> failsWith (fst (getAsClientState (snd (add mmap key val)) key)) ErrConvertFailed
          \<and> failsWith (fst (getAsPeerState (snd (add mmap key val)) key)) ErrConvertFailed
          \<and> failsWith (fst (getAsPieceState (snd (add mmap key val)) key)) ErrConvertFailed)"
  using assms
  by (simp add: add_result add_map get_result failsWith_getAsSuperState
      failsWith_getAsClientState failsWith_getAsPeerState failsWith_getAsPieceState)

theorem any_value_accepted_witness:
  "''x'' \<noteq> []
   \<and> kindOf (OtherV ''some string'' :: (nat, nat, nat, nat, string) iface) = OtherK
   \<and> fst (add (newStateSyncMap :: (nat, nat, nat, nat, string) stateSyncMap) ''x'' (OtherV ''some string'')) = None
   \<and> fst (get (snd (add (newStateSyncMap :: (nat, nat, nat, nat, string) stateSyncMap) ''x'' (OtherV ''some string''))) ''x'')
        = Inr (OtherV ''some string'')
   \<and> failsWith (fst (getAsPeerState
        (snd (add (newStateSyncMap :: (nat, nat, nat, nat, string) stateSyncMap) ''x'' (OtherV ''some string''))) ''x''))
        ErrConvertFailed"
  using any_value_accepted [of "''x''" "newStateSyncMap :: (nat, nat, nat, nat, string) stateSyncMap"
      "OtherV ''some string''"]
  by simp

text \<open>
  Claim C10. \<open>get\<close> and the four typed getters leave the map as it was, for every
  key and every map, whether they succeed or fail.
\<close>

theorem getters_read_only:
  "snd (get mmap key) = mmap
   \<and> snd (getAsSuperState mmap key) = mmap
   \<and> snd (getAsClientState mmap key) = mmap
   \<and> snd (getAsPeerState mmap key) = mmap
   \<and> snd (getAsPieceState mmap key) = mmap"
  by (simp add: get_map getAsSuperState_map getAsClientState_map getAsPeerState_map
      getAsPieceState_map)

end
